theory Spec2Isabelle
  imports Complex_Main "HOL-Library.Sublist"
begin

section \<open>Data model of src/index.tsx\<close>

text \<open>
  The TypeScript interfaces \<^verbatim>\<open>Ledger\<close>, \<^verbatim>\<open>Voucher\<close> and \<^verbatim>\<open>AppData\<close> become records, the
  two string unions become datatypes. The fields \<^verbatim>\<open>id\<close>, \<^verbatim>\<open>name\<close>, \<^verbatim>\<open>group\<close> and \<^verbatim>\<open>type\<close>
  carry the prefix of their interface, since two records cannot share a field name and
  \<open>id\<close> is a constant of HOL. An optional field (\<^verbatim>\<open>gstNumber?\<close>) is an \<open>option\<close>.
  The amount of a voucher and the opening balance of a ledger are finite doubles, held as
  the rationals they denote; the arithmetic on them is that of doubles (see below).
\<close>

datatype LedgerGroup =
  Asset | Liability | Income | Expense | Bank | Cash | SundryDebtor | SundryCreditor

record Ledger =
  ledger_id :: string
  ledger_name :: string
  ledger_group :: LedgerGroup
  gstNumber :: "string option"
  openingBalance :: rat
  contact :: "string option"

datatype VoucherType = Sales | Purchase | Receipt | Payment | Journal | Contra

record Voucher =
  voucher_id :: string
  date :: string
  voucher_type :: VoucherType
  ledgerId :: string
  amount :: rat
  narration :: string
  invoiceNumber :: "string option"

record AppData =
  ledgers :: "Ledger list"
  vouchers :: "Voucher list"
  companyName :: string
  companyAddress :: string
  companyGst :: string
  companyPhone :: string
  companyEmail :: string

text \<open>The constant \<^verbatim>\<open>INITIAL_DATA\<close> of the source, entry by entry.\<close>

definition mkLedger :: "string \<Rightarrow> string \<Rightarrow> LedgerGroup \<Rightarrow> string option \<Rightarrow> rat \<Rightarrow> Ledger" where
  "mkLedger i n g gst ob =
     \<lparr>ledger_id = i, ledger_name = n, ledger_group = g, gstNumber = gst,
      openingBalance = ob, contact = None\<rparr>"

definition mkVoucher ::
  "string \<Rightarrow> string \<Rightarrow> VoucherType \<Rightarrow> string \<Rightarrow> rat \<Rightarrow> string \<Rightarrow> string option \<Rightarrow> Voucher" where
  "mkVoucher i d t l a n ref =
     \<lparr>voucher_id = i, date = d, voucher_type = t, ledgerId = l, amount = a,
      narration = n, invoiceNumber = ref\<rparr>"

definition INITIAL_DATA :: AppData where
  "INITIAL_DATA =
     \<lparr>ledgers =
        [mkLedger ''1'' ''Cash Account'' Cash None 50000,
         mkLedger ''2'' ''HDFC Bank'' Bank None 150000,
         mkLedger ''3'' ''Sales Account'' Income None 0,
         mkLedger ''4'' ''Purchase Account'' Expense None 0,
         mkLedger ''5'' ''Ramesh Traders'' SundryDebtor (Some ''27ABCDE1234F1Z5'') 0,
         mkLedger ''6'' ''Tech Solutions Ltd'' SundryCreditor (Some ''27XYZAB5678L1Z2'') 0,
         mkLedger ''7'' ''Office Rent'' Expense None 0,
         mkLedger ''8'' ''Electricity Bill'' Expense None 0],
      vouchers =
        [mkVoucher ''V001'' ''2024-04-01'' Receipt ''1'' 50000 ''Capital Introduction'' None,
         mkVoucher ''V002'' ''2024-04-02'' Purchase ''6'' 25000 ''Purchased computer parts''
           (Some ''INV-99''),
         mkVoucher ''V003'' ''2024-04-05'' Sales ''5'' 45000 ''Sold 5 Laptops'' (Some ''NAC-001''),
         mkVoucher ''V004'' ''2024-04-06'' Payment ''7'' 12000 ''Office Rent Paid via Cash'' None],
      companyName = ''New Age Computers'',
      companyAddress = ''Shop 12, Digital Plaza, Mumbai, 400001'',
      companyGst = ''27AACCN1234P1Z5'',
      companyPhone = ''9920524542'',
      companyEmail = ''support@newagecomputers.com''\<rparr>"

section \<open>Actions of AccountingApp\<close>

text \<open>
  Each action is \<^verbatim>\<open>setData(prev => ...)\<close>: a function from the previous \<^verbatim>\<open>AppData\<close> to the
  next one. The spread \<^verbatim>\<open>[...prev.vouchers, voucher]\<close> appends at the end.
\<close>

definition addLedger :: "Ledger \<Rightarrow> AppData \<Rightarrow> AppData" where
  "addLedger ledger prev = prev\<lparr>ledgers := ledgers prev @ [ledger]\<rparr>"

definition deleteLedger :: "string \<Rightarrow> AppData \<Rightarrow> AppData" where
  "deleteLedger i prev = prev\<lparr>ledgers := filter (\<lambda>l. ledger_id l \<noteq> i) (ledgers prev)\<rparr>"

definition addVoucher :: "Voucher \<Rightarrow> AppData \<Rightarrow> AppData" where
  "addVoucher voucher prev = prev\<lparr>vouchers := vouchers prev @ [voucher]\<rparr>"

definition deleteVoucher :: "string \<Rightarrow> AppData \<Rightarrow> AppData" where
  "deleteVoucher i prev = prev\<lparr>vouchers := filter (\<lambda>v. voucher_id v \<noteq> i) (vouchers prev)\<rparr>"

text \<open>
  The state of the voucher entry form (\<^verbatim>\<open>VoucherView\<close>): every input is held as text,
  the voucher type apart.
\<close>

record VoucherForm =
  form_type :: VoucherType
  form_ledgerId :: string
  form_amount :: string
  form_narration :: string
  form_date :: string
  form_invoiceNo :: string

text \<open>
  \<^verbatim>\<open>handleSave\<close>: the guard \<^verbatim>\<open>if (ledgerId && amount)\<close> tests two strings, and a string is
  truthy exactly when it is not empty. Two things come from outside the source and are
  parameters: \<open>toNumber\<close>, the conversion \<^verbatim>\<open>Number(amount)\<close> of JavaScript, and \<open>newId\<close>,
  the value \<^verbatim>\<open>generateId()\<close> returns. The result is the next \<^verbatim>\<open>AppData\<close> and the next form
  state (amount, narration and reference are cleared after a save).
\<close>

definition handleSave ::
  "(string \<Rightarrow> rat) \<Rightarrow> string \<Rightarrow> VoucherForm \<Rightarrow> AppData \<Rightarrow> AppData \<times> VoucherForm" where
  "handleSave toNumber newId f prev =
     (if form_ledgerId f \<noteq> [] \<and> form_amount f \<noteq> [] then
        (addVoucher
           \<lparr>voucher_id = newId, date = form_date f, voucher_type = form_type f,
            ledgerId = form_ledgerId f, amount = toNumber (form_amount f),
            narration = form_narration f, invoiceNumber = Some (form_invoiceNo f)\<rparr> prev,
         f\<lparr>form_amount := [], form_narration := [], form_invoiceNo := []\<rparr>)
      else (prev, f))"

section \<open>Tally export\<close>

text \<open>
  \<^verbatim>\<open>a || b\<close> where \<^verbatim>\<open>a\<close> is a string or \<^verbatim>\<open>undefined\<close>: both \<^verbatim>\<open>undefined\<close> and the empty string
  are falsy, so \<^verbatim>\<open>b\<close> is taken for either.
\<close>

definition jsOr :: "string option \<Rightarrow> string \<Rightarrow> string" where
  "jsOr a b = (case a of None \<Rightarrow> b | Some s \<Rightarrow> if s = [] then b else s)"

text \<open>
  \<^verbatim>\<open>data.ledgers.find(l => l.id === v.ledgerId)?.name || 'Unknown Ledger'\<close>:
  \<^verbatim>\<open>find\<close> returns the first ledger with that id or \<^verbatim>\<open>undefined\<close>, and \<^verbatim>\<open>?.name\<close> keeps
  \<^verbatim>\<open>undefined\<close>.
\<close>

definition ledgerName :: "Ledger list \<Rightarrow> Voucher \<Rightarrow> string" where
  "ledgerName ls v =
     jsOr (map_option ledger_name (find (\<lambda>l. ledger_id l = ledgerId v) ls)) ''Unknown Ledger''"

text \<open>\<^verbatim>\<open>v.date.replace(/-/g, '')\<close> removes every hyphen.\<close>

definition dateStr :: "Voucher \<Rightarrow> string" where
  "dateStr v = filter (\<lambda>c. c \<noteq> CHR ''-'') (date v)"

text \<open>The text of a voucher type, as \<^verbatim>\<open>${v.type}\<close> prints it.\<close>

fun typeName :: "VoucherType \<Rightarrow> string" where
  "typeName Sales = ''Sales''"
| "typeName Purchase = ''Purchase''"
| "typeName Receipt = ''Receipt''"
| "typeName Payment = ''Payment''"
| "typeName Journal = ''Journal''"
| "typeName Contra = ''Contra''"

text \<open>\<^verbatim>\<open>['Sales', 'Payment'].includes(v.type)\<close>, the test used four times in the exporter.\<close>

definition isSalesOrPayment :: "Voucher \<Rightarrow> bool" where
  "isSalesOrPayment v = (voucher_type v \<in> set [Sales, Payment])"

text \<open>The values interpolated into the main (party) ledger entry.\<close>

definition partyIsDeemedPositive :: "Voucher \<Rightarrow> string" where
  "partyIsDeemedPositive v = (if isSalesOrPayment v then ''No'' else ''Yes'')"

definition partyAmount :: "Voucher \<Rightarrow> rat" where
  "partyAmount v = (if isSalesOrPayment v then amount v else - amount v)"

text \<open>
  The contra ledger: \<^verbatim>\<open>let contraLedger = 'Cash Account'\<close> followed by two assignments, each
  under its own \<^verbatim>\<open>if\<close>.
\<close>

definition contraLedger :: "Voucher \<Rightarrow> string" where
  "contraLedger v =
     (let c0 = ''Cash Account'';
          c1 = (if voucher_type v = Sales then ''Sales Account'' else c0);
          c2 = (if voucher_type v = Purchase then ''Purchase Account'' else c1)
      in c2)"

definition contraIsDeemedPositive :: "Voucher \<Rightarrow> string" where
  "contraIsDeemedPositive v = (if isSalesOrPayment v then ''Yes'' else ''No'')"

definition contraAmount :: "Voucher \<Rightarrow> rat" where
  "contraAmount v = (if isSalesOrPayment v then - amount v else amount v)"

text \<open>
  One \<^verbatim>\<open>ALLLEDGERENTRIES.LIST\<close> element. \<open>numStr\<close> is the text JavaScript gives a number
  inside a template literal; it is not part of the source and is a parameter.
\<close>

definition ledgerEntryXml :: "(rat \<Rightarrow> string) \<Rightarrow> string \<Rightarrow> string \<Rightarrow> rat \<Rightarrow> string" where
  "ledgerEntryXml numStr nm flag amt =
     ''      <ALLLEDGERENTRIES.LIST>\<newline>'' @
     ''       <LEDGERNAME>'' @ nm @ ''</LEDGERNAME>\<newline>'' @
     ''       <ISDEEMEDPOSITIVE>'' @ flag @ ''</ISDEEMEDPOSITIVE>\<newline>'' @
     ''       <AMOUNT>'' @ numStr amt @ ''</AMOUNT>\<newline>'' @
     ''      </ALLLEDGERENTRIES.LIST>\<newline>''"

text \<open>The text appended to \<^verbatim>\<open>xml\<close> by one run of the \<^verbatim>\<open>forEach\<close> body.\<close>

definition voucherXml :: "(rat \<Rightarrow> string) \<Rightarrow> Ledger list \<Rightarrow> Voucher \<Rightarrow> string" where
  \<open>voucherXml numStr ls v =
     ''     <VOUCHER VCHTYPE="'' @ typeName (voucher_type v) @ ''" ACTION="Create">\<newline>'' @
     ''      <DATE>'' @ dateStr v @ ''</DATE>\<newline>'' @
     ''      <NARRATION>'' @ narration v @ ''</NARRATION>\<newline>'' @
     ''      <VOUCHERNUMBER>'' @ jsOr (invoiceNumber v) (voucher_id v) @ ''</VOUCHERNUMBER>\<newline>'' @
     ''      <PARTYLEDGERNAME>'' @ ledgerName ls v @ ''</PARTYLEDGERNAME>\<newline>'' @
     ledgerEntryXml numStr (ledgerName ls v) (partyIsDeemedPositive v) (partyAmount v) @
     ledgerEntryXml numStr (contraLedger v) (contraIsDeemedPositive v) (contraAmount v) @
     ''     </VOUCHER>\<newline>''\<close>

definition envelopeOpen :: string where
  \<open>envelopeOpen =
     ''<ENVELOPE>\<newline> <HEADER>\<newline>  <TALLYREQUEST>Import Data</TALLYREQUEST>\<newline> </HEADER>\<newline>'' @
     '' <BODY>\<newline>  <IMPORTDATA>\<newline>   <REQUESTDESC>\<newline>    <REPORTNAME>Vouchers</REPORTNAME>\<newline>'' @
     ''   </REQUESTDESC>\<newline>   <REQUESTDATA>\<newline>    <TALLYMESSAGE xmlns:UDF="TallyUDF">\<newline>''\<close>

definition envelopeClose :: string where
  "envelopeClose =
     ''    </TALLYMESSAGE>\<newline>   </REQUESTDATA>\<newline>  </IMPORTDATA>\<newline> </BODY>\<newline></ENVELOPE>''"

text \<open>
  \<^verbatim>\<open>exportToTally\<close> up to the document it builds: \<^verbatim>\<open>xml\<close> starts as the opening of the
  envelope, the \<^verbatim>\<open>forEach\<close> over \<^verbatim>\<open>data.vouchers\<close> appends to it voucher by voucher (a left
  fold), and the closing is appended last. Handing the text to the browser as a download
  is outside the model.
\<close>

definition exportToTally :: "(rat \<Rightarrow> string) \<Rightarrow> AppData \<Rightarrow> string" where
  "exportToTally numStr d =
     foldl (\<lambda>xml v. xml @ voucherXml numStr (ledgers d) v) envelopeOpen (vouchers d)
       @ envelopeClose"

section \<open>JavaScript numbers\<close>

text \<open>
  A JavaScript \<^verbatim>\<open>number\<close> is an IEEE-754 binary64 value: a finite double (a rational),
  one of the two infinities, or NaN. The two zeros are one value here: nothing in the
  modelled code tells them apart (no division, and both print as \<^verbatim>\<open>0\<close>).
\<close>

datatype number = Fin rat | PosInfinity | NegInfinity | NaN

text \<open>Rounding to the nearest integer, a tie going to the even one.\<close>

definition roundEven :: "rat \<Rightarrow> int" where
  "roundEven x =
     (let f = \<lfloor>x\<rfloor>; r = x - of_int f
      in if r < 1 / 2 then f else if 1 / 2 < r then f + 1 else if even f then f else f + 1)"

text \<open>
  Rounding a positive rational to 53 significant bits. A value of at least \<open>2 ^ 53\<close> is
  halved until it is below, rounded, and scaled back; a value below \<open>2 ^ 52\<close> is doubled
  until it reaches \<open>2 ^ 52\<close> or the spacing reaches \<open>2 ^ -1074\<close>, that of the subnormal
  doubles (\<open>e\<close> is the exponent of the spacing).
\<close>

function roundUp :: "rat \<Rightarrow> rat" where
  "roundUp a = (if 2 ^ 53 \<le> a then 2 * roundUp (a / 2) else of_int (roundEven a))"
  by pat_completeness auto
termination
proof (relation "measure (\<lambda>a. nat \<lfloor>a\<rfloor>)")
  show "wf (measure (\<lambda>a::rat. nat \<lfloor>a\<rfloor>))" by simp
next
  fix a :: rat
  assume a: "2 ^ 53 \<le> a"
  then have "a / 2 \<le> a - 1" by simp
  then have "\<lfloor>a / 2\<rfloor> \<le> \<lfloor>a - 1\<rfloor>" by (rule floor_mono)
  moreover have "0 < \<lfloor>a\<rfloor>" using a by simp
  ultimately show "(a / 2, a) \<in> measure (\<lambda>a. nat \<lfloor>a\<rfloor>)" by simp
qed

function roundDown :: "int \<Rightarrow> rat \<Rightarrow> rat" where
  "roundDown e a =
     (if a < 2 ^ 52 \<and> - 1074 < e then roundDown (e - 1) (2 * a) / 2 else of_int (roundEven a))"
  by pat_completeness auto
termination
  by (relation "measure (\<lambda>(e, a). nat (e + 1074))") auto

declare roundUp.simps [simp del] roundDown.simps [simp del]

definition roundAbs :: "rat \<Rightarrow> rat" where
  "roundAbs a = (if 2 ^ 52 \<le> a then roundUp a else roundDown 0 a)"

text \<open>
  The double nearest to an exact result (round to nearest, ties to even): an infinity
  when the rounded magnitude reaches \<open>2 ^ 1024\<close>.
\<close>

definition toDouble :: "rat \<Rightarrow> number" where
  "toDouble x =
     (if x = 0 then Fin 0
      else let y = roundAbs \<bar>x\<bar>
           in if 2 ^ 1024 \<le> y then (if 0 < x then PosInfinity else NegInfinity)
              else Fin (if 0 < x then y else - y))"

text \<open>The operators \<^verbatim>\<open>+\<close>, unary and binary \<^verbatim>\<open>-\<close>, \<^verbatim>\<open>> 0\<close>, \<^verbatim>\<open>< 0\<close> and \<^verbatim>\<open>Math.abs\<close> on numbers.\<close>

fun jsAdd :: "number \<Rightarrow> number \<Rightarrow> number" where
  "jsAdd (Fin a) (Fin b) = toDouble (a + b)"
| "jsAdd NaN y = NaN"
| "jsAdd x NaN = NaN"
| "jsAdd PosInfinity NegInfinity = NaN"
| "jsAdd NegInfinity PosInfinity = NaN"
| "jsAdd PosInfinity y = PosInfinity"
| "jsAdd x PosInfinity = PosInfinity"
| "jsAdd NegInfinity y = NegInfinity"
| "jsAdd x NegInfinity = NegInfinity"

fun jsNeg :: "number \<Rightarrow> number" where
  "jsNeg (Fin a) = Fin (- a)"
| "jsNeg PosInfinity = NegInfinity"
| "jsNeg NegInfinity = PosInfinity"
| "jsNeg NaN = NaN"

definition jsSub :: "number \<Rightarrow> number \<Rightarrow> number" where
  "jsSub x y = jsAdd x (jsNeg y)"

fun jsPositive :: "number \<Rightarrow> bool" where
  "jsPositive (Fin a) = (0 < a)"
| "jsPositive PosInfinity = True"
| "jsPositive NegInfinity = False"
| "jsPositive NaN = False"

fun jsNegative :: "number \<Rightarrow> bool" where
  "jsNegative (Fin a) = (a < 0)"
| "jsNegative PosInfinity = False"
| "jsNegative NegInfinity = True"
| "jsNegative NaN = False"

fun jsAbs :: "number \<Rightarrow> number" where
  "jsAbs (Fin a) = Fin \<bar>a\<bar>"
| "jsAbs PosInfinity = PosInfinity"
| "jsAbs NegInfinity = PosInfinity"
| "jsAbs NaN = NaN"

text \<open>
  \<^verbatim>\<open>xs.reduce((s, v) => s + v.amount, 0)\<close>: a left fold of the double addition from \<open>0\<close>.
  The stored amounts and opening balances are finite doubles, held as rationals.
\<close>

definition sumAmounts :: "Voucher list \<Rightarrow> number" where
  "sumAmounts xs = foldl (\<lambda>s v. jsAdd s (Fin (amount v))) (Fin 0) xs"

section \<open>Reports\<close>

text \<open>
  The trial balance of \<^verbatim>\<open>ReportView\<close>. For a ledger \<^verbatim>\<open>l\<close>, \<^verbatim>\<open>debits\<close> and \<^verbatim>\<open>credits\<close> are
  \<^verbatim>\<open>filter(...).reduce((s, v) => s + v.amount, 0)\<close>, and \<^verbatim>\<open>net\<close> is
  \<^verbatim>\<open>l.openingBalance + debits - credits\<close>, evaluated left to right.
\<close>

definition debits :: "Ledger \<Rightarrow> Voucher list \<Rightarrow> number" where
  "debits l vs =
     sumAmounts
       (filter (\<lambda>v. ledgerId v = ledger_id l \<and> voucher_type v \<in> set [Sales, Receipt]) vs)"

definition credits :: "Ledger \<Rightarrow> Voucher list \<Rightarrow> number" where
  "credits l vs =
     sumAmounts
       (filter (\<lambda>v. ledgerId v = ledger_id l \<and> voucher_type v \<in> set [Purchase, Payment]) vs)"

definition net :: "Ledger \<Rightarrow> Voucher list \<Rightarrow> number" where
  "net l vs = jsSub (jsAdd (Fin (openingBalance l)) (debits l vs)) (credits l vs)"

definition isCreditNature :: "Ledger \<Rightarrow> bool" where
  "isCreditNature l = (ledger_group l \<in> set [Liability, Income, SundryCreditor])"

text \<open>
  The content of an amount cell: either the text \<^verbatim>\<open>'-'\<close> or \<^verbatim>\<open>formatCurrency(x)\<close>.
  \<^verbatim>\<open>formatCurrency\<close> wraps \<^verbatim>\<open>Intl.NumberFormat\<close>, which is not part of the source, so the
  cell keeps the number handed to it.
\<close>

datatype Cell = Dash | Formatted number

text \<open>
  One table row: the React key, the name and the group shown in the first cell, and the
  debit and the credit cell.
\<close>

record TrialRow =
  row_key :: string
  row_name :: string
  row_group :: LedgerGroup
  debitCell :: Cell
  creditCell :: Cell

text \<open>
  The callback of \<^verbatim>\<open>data.ledgers.map\<close>: \<^verbatim>\<open>null\<close> (no row) when \<^verbatim>\<open>net === 0\<close>, a row otherwise.
  \<^verbatim>\<open>isCreditNature\<close> is bound as in the source, and as in the source nothing reads it.
\<close>

definition trialBalanceRow :: "Voucher list \<Rightarrow> Ledger \<Rightarrow> TrialRow option" where
  "trialBalanceRow vs l =
     (let n = net l vs;
          creditNature = isCreditNature l
      in if n = Fin 0 then None
         else Some \<lparr>row_key = ledger_id l, row_name = ledger_name l, row_group = ledger_group l,
                    debitCell = (if jsPositive n then Formatted n else Dash),
                    creditCell = (if jsNegative n then Formatted (jsAbs n) else Dash)\<rparr>)"

text \<open>
  The rows of the table body: React renders the array the \<^verbatim>\<open>map\<close> returns in order and
  renders nothing for \<^verbatim>\<open>null\<close>.
\<close>

definition trialBalance :: "AppData \<Rightarrow> TrialRow list" where
  "trialBalance d = List.map_filter (trialBalanceRow (vouchers d)) (ledgers d)"

text \<open>
  The four figures of the profit and loss panel, before \<^verbatim>\<open>formatCurrency\<close>: three
  \<^verbatim>\<open>filter(...).reduce(...)\<close> sums over the whole journal, and \<^verbatim>\<open>formatCurrency(10000)\<close> for
  the net profit.
\<close>

record ProfitAndLoss =
  revenue :: number
  costOfGoods :: number
  directExpenses :: number
  netProfit :: number

definition computeProfitAndLoss :: "Voucher list \<Rightarrow> ProfitAndLoss" where
  "computeProfitAndLoss vs =
     \<lparr>revenue = sumAmounts (filter (\<lambda>v. voucher_type v = Sales) vs),
      costOfGoods = sumAmounts (filter (\<lambda>v. voucher_type v = Purchase) vs),
      directExpenses = sumAmounts (filter (\<lambda>v. voucher_type v = Payment) vs),
      netProfit = Fin 10000\<rparr>"

section \<open>Notions used to state the properties\<close>

text \<open>
  No addition of the fold rounds: starting from \<open>s\<close>, each exact partial sum is itself a
  finite double.
\<close>

fun exactSum :: "rat \<Rightarrow> rat list \<Rightarrow> bool" where
  "exactSum s [] = True"
| "exactSum s (x # xs) = (toDouble (s + x) = Fin (s + x) \<and> exactSum (s + x) xs)"

text \<open>The number of places of a text at which a given tag starts.\<close>

fun countTag :: "string \<Rightarrow> string \<Rightarrow> nat" where
  "countTag t [] = 0"
| "countTag t (c # cs) = (if prefix t (c # cs) then 1 else 0) + countTag t cs"

text \<open>A text without the character that opens a tag.\<close>

definition noTagOpen :: "string \<Rightarrow> bool" where
  "noTagOpen s = (CHR ''<'' \<notin> set s)"

text \<open>
  The texts the exporter interpolates for one voucher are free of tag openings: the date,
  the narration, the voucher number, the party ledger name and the two printed amounts.
\<close>

definition plainVoucher :: "(rat \<Rightarrow> string) \<Rightarrow> Ledger list \<Rightarrow> Voucher \<Rightarrow> bool" where
  "plainVoucher numStr ls v =
     (noTagOpen (date v) \<and> noTagOpen (narration v) \<and>
      noTagOpen (jsOr (invoiceNumber v) (voucher_id v)) \<and> noTagOpen (ledgerName ls v) \<and>
      noTagOpen (numStr (partyAmount v)) \<and> noTagOpen (numStr (contraAmount v)))"

section \<open>The Voucher Journal's add operation\<close>

text \<open>
  C1 (as stated in the specification): a voucher with a negative amount is rejected by
  the add operation and the journal keeps its length and contents. The source has no
  such check: \<^verbatim>\<open>addVoucher\<close> appends whatever it is given. At the initial data, adding a
  voucher of amount \<open>-5\<close> makes the journal one entry longer.
\<close>

theorem addVoucher_negative_counterexample:
  "amount (mkVoucher ''V005'' ''2024-04-07'' Payment ''7'' (-5) ''Refund'' None) < 0 \<and>
   length (vouchers (addVoucher (mkVoucher ''V005'' ''2024-04-07'' Payment ''7'' (-5) ''Refund'' None)
     INITIAL_DATA)) = 5 \<and>
   length (vouchers INITIAL_DATA) = 4 \<and>
   vouchers (addVoucher (mkVoucher ''V005'' ''2024-04-07'' Payment ''7'' (-5) ''Refund'' None)
     INITIAL_DATA) \<noteq> vouchers INITIAL_DATA"
  by (simp add: addVoucher_def mkVoucher_def INITIAL_DATA_def)

text \<open>
  C1 (amended): the add operation validates nothing. For every voucher, whatever the sign
  of its amount, the journal after the add is the journal before followed by that voucher,
  so it is one entry longer, and the ledger registry is not touched. The form handler
  leaves the journal unchanged only when the ledger or the amount text is empty; otherwise
  it appends a voucher whose amount is the number the amount text converts to, negative
  or not.
\<close>

theorem addVoucher_appends:
  "vouchers (addVoucher v d) = vouchers d @ [v] \<and>
   length (vouchers (addVoucher v d)) = Suc (length (vouchers d)) \<and>
   ledgers (addVoucher v d) = ledgers d \<and>
   (form_ledgerId f = [] \<or> form_amount f = [] \<longrightarrow>
      fst (handleSave toNumber newId f d) = d) \<and>
   (form_ledgerId f \<noteq> [] \<and> form_amount f \<noteq> [] \<longrightarrow>
      (\<exists>v'. vouchers (fst (handleSave toNumber newId f d)) = vouchers d @ [v'] \<and>
            amount v' = toNumber (form_amount f) \<and>
            ledgerId v' = form_ledgerId f \<and> voucher_type v' = form_type f))"
  by (auto simp: addVoucher_def handleSave_def)

theorem addVoucher_appends_witness:
  "vouchers (fst (handleSave (\<lambda>s. if s = ''-5'' then -5 else 0) ''V005''
      \<lparr>form_type = Payment, form_ledgerId = ''7'', form_amount = ''-5'',
       form_narration = ''Refund'', form_date = ''2024-04-07'', form_invoiceNo = ''''\<rparr>
      INITIAL_DATA))
   = vouchers INITIAL_DATA @
       [\<lparr>voucher_id = ''V005'', date = ''2024-04-07'', voucher_type = Payment,
         ledgerId = ''7'', amount = -5, narration = ''Refund'', invoiceNumber = Some ''''\<rparr>] \<and>
   fst (handleSave (\<lambda>s. if s = ''-5'' then -5 else 0) ''V006''
      \<lparr>form_type = Payment, form_ledgerId = ''7'', form_amount = '''',
       form_narration = ''Refund'', form_date = ''2024-04-07'', form_invoiceNo = ''''\<rparr>
      INITIAL_DATA) = INITIAL_DATA"
  using addVoucher_appends
    [of "mkVoucher ''V005'' ''2024-04-07'' Payment ''7'' (-5) ''Refund'' None" INITIAL_DATA
        "\<lparr>form_type = Payment, form_ledgerId = ''7'', form_amount = ''-5'',
          form_narration = ''Refund'', form_date = ''2024-04-07'', form_invoiceNo = ''''\<rparr>"
        "\<lambda>s. if s = ''-5'' then -5 else 0" "''V005''"]
    addVoucher_appends
    [of "mkVoucher ''V005'' ''2024-04-07'' Payment ''7'' (-5) ''Refund'' None" INITIAL_DATA
        "\<lparr>form_type = Payment, form_ledgerId = ''7'', form_amount = '''',
          form_narration = ''Refund'', form_date = ''2024-04-07'', form_invoiceNo = ''''\<rparr>"
        "\<lambda>s. if s = ''-5'' then -5 else 0" "''V006''"]
  by (simp add: handleSave_def addVoucher_def)

section \<open>The double-entry exporter\<close>

text \<open>
  C2 (as stated in the specification): the party leg's positive flag is "Yes" exactly when
  the voucher type is Sales or Payment. The exporter writes the opposite flag: for the
  Sales voucher V003 of the initial data the party leg carries "No".
\<close>

theorem party_flag_counterexample:
  "voucher_type (vouchers INITIAL_DATA ! 2) = Sales \<and>
   partyIsDeemedPositive (vouchers INITIAL_DATA ! 2) = ''No'' \<and>
   partyIsDeemedPositive (vouchers INITIAL_DATA ! 2) \<noteq> ''Yes''"
  by (simp add: INITIAL_DATA_def mkVoucher_def partyIsDeemedPositive_def isSalesOrPayment_def)

text \<open>
  C2 (amended): for every voucher, the party leg's flag is "No" exactly when the voucher
  type is Sales or Payment and "Yes" exactly for the four other types, and its amount is
  \<open>+amount\<close> when the type is Sales or Payment and \<open>-amount\<close> otherwise.
\<close>

theorem party_leg_flag_and_amount:
  "(partyIsDeemedPositive v = ''No'') = (voucher_type v = Sales \<or> voucher_type v = Payment) \<and>
   (partyIsDeemedPositive v = ''Yes'') =
      (voucher_type v = Purchase \<or> voucher_type v = Receipt \<or> voucher_type v = Journal \<or>
       voucher_type v = Contra) \<and>
   partyAmount v =
      (if voucher_type v = Sales \<or> voucher_type v = Payment then amount v else - amount v)"
  by (cases "voucher_type v")
     (simp_all add: partyIsDeemedPositive_def partyAmount_def isSalesOrPayment_def)

text \<open>
  C6: for every voucher, of whatever type, the two legs the exporter emits are a net-zero
  pair. The text of a voucher element is spelled out: after the five head lines come two
  \<^verbatim>\<open>ALLLEDGERENTRIES.LIST\<close> entries, and the second one carries the amount of the first
  negated and the flag of the first flipped ("Yes" for "No" and "No" for "Yes"). So the two
  amounts have the same absolute value, opposite signs and sum zero, and the two flags are
  opposite.
\<close>

theorem legs_net_zero:
  \<open>voucherXml numStr ls v =
     ''     <VOUCHER VCHTYPE="'' @ typeName (voucher_type v) @ ''" ACTION="Create">\<newline>'' @
     ''      <DATE>'' @ dateStr v @ ''</DATE>\<newline>'' @
     ''      <NARRATION>'' @ narration v @ ''</NARRATION>\<newline>'' @
     ''      <VOUCHERNUMBER>'' @ jsOr (invoiceNumber v) (voucher_id v) @ ''</VOUCHERNUMBER>\<newline>'' @
     ''      <PARTYLEDGERNAME>'' @ ledgerName ls v @ ''</PARTYLEDGERNAME>\<newline>'' @
     ''      <ALLLEDGERENTRIES.LIST>\<newline>'' @
     ''       <LEDGERNAME>'' @ ledgerName ls v @ ''</LEDGERNAME>\<newline>'' @
     ''       <ISDEEMEDPOSITIVE>'' @ partyIsDeemedPositive v @ ''</ISDEEMEDPOSITIVE>\<newline>'' @
     ''       <AMOUNT>'' @ numStr (partyAmount v) @ ''</AMOUNT>\<newline>'' @
     ''      </ALLLEDGERENTRIES.LIST>\<newline>'' @
     ''      <ALLLEDGERENTRIES.LIST>\<newline>'' @
     ''       <LEDGERNAME>'' @ contraLedger v @ ''</LEDGERNAME>\<newline>'' @
     ''       <ISDEEMEDPOSITIVE>'' @ (if partyIsDeemedPositive v = ''Yes'' then ''No'' else ''Yes'')
        @ ''</ISDEEMEDPOSITIVE>\<newline>'' @
     ''       <AMOUNT>'' @ numStr (- partyAmount v) @ ''</AMOUNT>\<newline>'' @
     ''      </ALLLEDGERENTRIES.LIST>\<newline>'' @
     ''     </VOUCHER>\<newline>'' \<and>
   (partyIsDeemedPositive v = ''Yes'' \<or> partyIsDeemedPositive v = ''No'') \<and>
   \<bar>- partyAmount v\<bar> = \<bar>partyAmount v\<bar> \<and>
   sgn (- partyAmount v) = - sgn (partyAmount v) \<and>
   partyAmount v + (- partyAmount v) = 0 \<and>
   contraAmount v = - partyAmount v \<and>
   \<bar>contraAmount v\<bar> = \<bar>partyAmount v\<bar> \<and>
   sgn (contraAmount v) = - sgn (partyAmount v) \<and>
   partyAmount v + contraAmount v = 0 \<and>
   (partyIsDeemedPositive v = ''Yes'') = (contraIsDeemedPositive v = ''No'') \<and>
   (partyIsDeemedPositive v = ''No'') = (contraIsDeemedPositive v = ''Yes'') \<and>
   partyIsDeemedPositive v \<noteq> contraIsDeemedPositive v\<close>
  by (simp add: voucherXml_def ledgerEntryXml_def contraAmount_def partyAmount_def
        partyIsDeemedPositive_def contraIsDeemedPositive_def sgn_minus)

lemma foldl_append_concat:
  "foldl (\<lambda>xml v. xml @ g v) acc vs = acc @ concat (map g vs)"
  by (induction vs arbitrary: acc) simp_all

text \<open>A stretch of text without \<^verbatim>\<open><\<close> holds no start of a tag.\<close>

lemma countTag_skip:
  "noTagOpen a \<Longrightarrow> countTag (CHR ''<'' # t) (a @ b) = countTag (CHR ''<'' # t) b"
  by (induction a) (auto simp: noTagOpen_def)

lemma noTagOpen_typeName: "noTagOpen (typeName t)"
  by (cases t) (simp_all add: noTagOpen_def)

lemma noTagOpen_dateStr: "noTagOpen (date v) \<Longrightarrow> noTagOpen (dateStr v)"
  by (simp add: noTagOpen_def dateStr_def)

lemma noTagOpen_flags:
  "noTagOpen (partyIsDeemedPositive v)" "noTagOpen (contraIsDeemedPositive v)"
  by (simp_all add: noTagOpen_def partyIsDeemedPositive_def contraIsDeemedPositive_def)

lemma noTagOpen_contraLedger: "noTagOpen (contraLedger v)"
  by (simp add: noTagOpen_def contraLedger_def Let_def)

lemma countTag_envelopeOpen:
  "countTag ''<VOUCHER '' (envelopeOpen @ rest) = countTag ''<VOUCHER '' rest"
  by (simp add: envelopeOpen_def)

lemma countTag_envelopeClose: "countTag ''<VOUCHER '' envelopeClose = 0"
  by (simp add: envelopeClose_def)

lemma countTag_voucherXml:
  assumes "plainVoucher numStr ls v"
  shows "countTag ''<VOUCHER '' (voucherXml numStr ls v @ rest)
         = Suc (countTag ''<VOUCHER '' rest)"
proof -
  have p: "noTagOpen (dateStr v)" "noTagOpen (narration v)"
    "noTagOpen (jsOr (invoiceNumber v) (voucher_id v))" "noTagOpen (ledgerName ls v)"
    "noTagOpen (numStr (partyAmount v))" "noTagOpen (numStr (contraAmount v))"
    using assms by (simp_all add: plainVoucher_def noTagOpen_dateStr)
  show ?thesis
    by (simp add: voucherXml_def ledgerEntryXml_def countTag_skip p noTagOpen_typeName
          noTagOpen_flags noTagOpen_contraLedger)
qed

lemma countTag_blocks:
  "list_all (plainVoucher numStr ls) vs \<Longrightarrow>
   countTag ''<VOUCHER '' (concat (map (voucherXml numStr ls) vs) @ envelopeClose) = length vs"
  by (induction vs) (simp_all add: countTag_envelopeClose countTag_voucherXml)

text \<open>
  C7 (amended): the export is total over the journal. For every registry and journal the
  document is the opening of the envelope, then the element of each voucher of the journal
  in journal order, then the closing; no voucher is skipped and the exporter has no failing
  branch. When, for every voucher of the journal, the interpolated texts (date, narration,
  voucher number, party ledger name, the two printed amounts) hold no \<^verbatim>\<open><\<close>, the number of
  \<^verbatim>\<open>VOUCHER\<close> opening tags in the document is the number of vouchers in the journal.
\<close>

theorem exportToTally_total:
  "exportToTally numStr d =
     envelopeOpen @ concat (map (voucherXml numStr (ledgers d)) (vouchers d)) @ envelopeClose \<and>
   (list_all (plainVoucher numStr (ledgers d)) (vouchers d) \<longrightarrow>
      countTag ''<VOUCHER '' (exportToTally numStr d) = length (vouchers d))"
  by (simp add: exportToTally_def foldl_append_concat countTag_envelopeOpen countTag_blocks)

theorem exportToTally_total_witness:
  "list_all (plainVoucher (\<lambda>r. if r < 0 then ''-1'' else ''1'') (ledgers INITIAL_DATA))
     (vouchers INITIAL_DATA) \<and>
   countTag ''<VOUCHER '' (exportToTally (\<lambda>r. if r < 0 then ''-1'' else ''1'') INITIAL_DATA) = 4"
proof -
  have plain: "list_all (plainVoucher (\<lambda>r. if r < 0 then ''-1'' else ''1'') (ledgers INITIAL_DATA))
     (vouchers INITIAL_DATA)"
    by (simp add: plainVoucher_def noTagOpen_def INITIAL_DATA_def mkVoucher_def mkLedger_def
          ledgerName_def jsOr_def)
  with exportToTally_total [of "\<lambda>r. if r < 0 then ''-1'' else ''1''" INITIAL_DATA]
  have "countTag ''<VOUCHER '' (exportToTally (\<lambda>r. if r < 0 then ''-1'' else ''1'') INITIAL_DATA)
        = length (vouchers INITIAL_DATA)"
    by blast
  moreover have "length (vouchers INITIAL_DATA) = 4"
    by (simp add: INITIAL_DATA_def)
  ultimately show ?thesis using plain by simp
qed

text \<open>
  C7 (as stated in the specification): the document holds exactly one voucher element per
  voucher of the journal. The exporter writes the narration as it is, so a narration that
  itself holds a \<^verbatim>\<open>VOUCHER\<close> opening tag adds one: a journal of one voucher gives a
  document in which the tag opens twice.
\<close>

theorem exportToTally_count_counterexample:
  \<open>length (vouchers (INITIAL_DATA\<lparr>vouchers :=
      [mkVoucher ''V005'' ''2024-04-07'' Payment ''7'' 100
         ''Rent</NARRATION></VOUCHER><VOUCHER VCHTYPE="Payment" ACTION="Create"><NARRATION>x''
         None]\<rparr>)) = 1 \<and>
   countTag ''<VOUCHER ''
     (exportToTally (\<lambda>r. if r < 0 then ''-100'' else ''100'')
        (INITIAL_DATA\<lparr>vouchers :=
          [mkVoucher ''V005'' ''2024-04-07'' Payment ''7'' 100
             ''Rent</NARRATION></VOUCHER><VOUCHER VCHTYPE="Payment" ACTION="Create"><NARRATION>x''
             None]\<rparr>)) = 2\<close>
  by (simp add: exportToTally_def voucherXml_def ledgerEntryXml_def envelopeOpen_def
        envelopeClose_def INITIAL_DATA_def mkVoucher_def mkLedger_def ledgerName_def jsOr_def
        dateStr_def partyIsDeemedPositive_def contraIsDeemedPositive_def partyAmount_def
        contraAmount_def contraLedger_def isSalesOrPayment_def Let_def)

lemma find_deleted:
  "find (\<lambda>l. ledger_id l = i) (filter (\<lambda>l. ledger_id l \<noteq> i) ls) = None"
  by (simp add: find_None_iff)

text \<open>
  C8: for every ledger id, deleting that ledger leaves the voucher journal as it was, the
  vouchers that reference the deleted ledger included, and the exporter then names the
  party of every voucher that references the deleted id "Unknown Ledger": the element it
  writes for such a voucher is the one it writes against an empty registry.
\<close>

theorem deleteLedger_keeps_vouchers:
  "vouchers (deleteLedger i d) = vouchers d \<and>
   (ledgerId v = i \<longrightarrow>
      ledgerName (ledgers (deleteLedger i d)) v = ''Unknown Ledger'' \<and>
      voucherXml numStr (ledgers (deleteLedger i d)) v =
        voucherXml numStr [] v)"
  by (simp add: deleteLedger_def voucherXml_def ledgerName_def jsOr_def find_deleted)

theorem deleteLedger_keeps_vouchers_witness:
  "ledgerId (vouchers INITIAL_DATA ! 2) = ''5'' \<and>
   ledgerName (ledgers INITIAL_DATA) (vouchers INITIAL_DATA ! 2) = ''Ramesh Traders'' \<and>
   vouchers (deleteLedger ''5'' INITIAL_DATA) = vouchers INITIAL_DATA \<and>
   ledgerName (ledgers (deleteLedger ''5'' INITIAL_DATA)) (vouchers INITIAL_DATA ! 2)
     = ''Unknown Ledger''"
  using deleteLedger_keeps_vouchers [of "''5''" INITIAL_DATA "vouchers INITIAL_DATA ! 2"]
  by (simp add: INITIAL_DATA_def mkVoucher_def mkLedger_def ledgerName_def jsOr_def)

text \<open>
  C10: the ledger name of the exported party leg is never the empty string. When the
  voucher's ledger id resolves to a ledger whose name is empty, the name written is
  "Unknown Ledger", the same text as when no ledger has that id.
\<close>

theorem ledgerName_never_empty:
  "ledgerName ls v \<noteq> [] \<and>
   (find (\<lambda>l. ledger_id l = ledgerId v) ls = Some l \<and> ledger_name l = [] \<longrightarrow>
      ledgerName ls v = ''Unknown Ledger'') \<and>
   (find (\<lambda>l. ledger_id l = ledgerId v) ls = None \<longrightarrow> ledgerName ls v = ''Unknown Ledger'')"
  by (auto simp: ledgerName_def jsOr_def split: option.splits)

theorem ledgerName_never_empty_witness:
  "find (\<lambda>l. ledger_id l = ledgerId (mkVoucher ''V9'' ''2024-04-09'' Sales ''9'' 100 ''x'' None))
      [mkLedger ''9'' [] Asset None 0] = Some (mkLedger ''9'' [] Asset None 0) \<and>
   ledger_name (mkLedger ''9'' [] Asset None 0) = [] \<and>
   ledgerName [mkLedger ''9'' [] Asset None 0]
      (mkVoucher ''V9'' ''2024-04-09'' Sales ''9'' 100 ''x'' None) = ''Unknown Ledger'' \<and>
   find (\<lambda>l. ledger_id l = ledgerId (mkVoucher ''V9'' ''2024-04-09'' Sales ''9'' 100 ''x'' None))
      (ledgers INITIAL_DATA) = None \<and>
   ledgerName (ledgers INITIAL_DATA)
      (mkVoucher ''V9'' ''2024-04-09'' Sales ''9'' 100 ''x'' None) = ''Unknown Ledger''"
  using ledgerName_never_empty [of "[mkLedger ''9'' [] Asset None 0]"
      "mkVoucher ''V9'' ''2024-04-09'' Sales ''9'' 100 ''x'' None"
      "mkLedger ''9'' [] Asset None 0"]
    ledgerName_never_empty [of "ledgers INITIAL_DATA"
      "mkVoucher ''V9'' ''2024-04-09'' Sales ''9'' 100 ''x'' None"
      "mkLedger ''9'' [] Asset None 0"]
  by (simp add: mkLedger_def mkVoucher_def INITIAL_DATA_def)

section \<open>Balances and the trial balance\<close>

text \<open>Evaluating the rounding on given rationals.\<close>

lemma floor_rat_numeral_div:
  "\<lfloor>(numeral a :: rat) / numeral b\<rfloor> = numeral a div numeral b"
  using floor_divide_of_int_eq [of "numeral a" "numeral b", where ?'a = rat] by simp

lemmas double_eval =
  toDouble_def roundAbs_def roundUp.simps roundDown.simps roundEven_def Let_def
  floor_rat_numeral_div

lemma initial_doubles:
  "toDouble 50000 = Fin 50000" "toDouble 100000 = Fin 100000" "toDouble 150000 = Fin 150000"
  "toDouble 45000 = Fin 45000" "toDouble 25000 = Fin 25000" "toDouble 12000 = Fin 12000"
  "toDouble (- 25000) = Fin (- 25000)" "toDouble (- 12000) = Fin (- 12000)"
  "toDouble 20000 = Fin 20000" "toDouble 8000 = Fin 8000" "toDouble 0 = Fin 0"
  by (simp_all add: double_eval)

lemma rounding_at_2_53:
  "toDouble 9007199254740992 = Fin 9007199254740992"
  "toDouble 9007199254740993 = Fin 9007199254740992"
  by (simp_all add: double_eval)

text \<open>A fold that never rounds is the exact sum.\<close>

lemma foldl_exact:
  "exactSum s (map amount xs) \<Longrightarrow>
   foldl (\<lambda>acc v. jsAdd acc (Fin (amount v))) (Fin s) xs = Fin (s + sum_list (map amount xs))"
  by (induction xs arbitrary: s) (simp_all add: add.assoc)

lemma sumAmounts_exact:
  "exactSum 0 (map amount xs) \<Longrightarrow> sumAmounts xs = Fin (sum_list (map amount xs))"
  using foldl_exact [of 0 xs] by (simp add: sumAmounts_def)

lemma debits_drop_journal_contra:
  "debits l (filter (\<lambda>v. voucher_type v \<noteq> Journal \<and> voucher_type v \<noteq> Contra) vs) = debits l vs"
proof -
  have "filter (\<lambda>v. ledgerId v = ledger_id l \<and> voucher_type v \<in> set [Sales, Receipt])
          (filter (\<lambda>v. voucher_type v \<noteq> Journal \<and> voucher_type v \<noteq> Contra) vs)
      = filter (\<lambda>v. ledgerId v = ledger_id l \<and> voucher_type v \<in> set [Sales, Receipt]) vs"
    by (induction vs) auto
  then show ?thesis by (simp only: debits_def)
qed

lemma credits_drop_journal_contra:
  "credits l (filter (\<lambda>v. voucher_type v \<noteq> Journal \<and> voucher_type v \<noteq> Contra) vs) = credits l vs"
proof -
  have "filter (\<lambda>v. ledgerId v = ledger_id l \<and> voucher_type v \<in> set [Purchase, Payment])
          (filter (\<lambda>v. voucher_type v \<noteq> Journal \<and> voucher_type v \<noteq> Contra) vs)
      = filter (\<lambda>v. ledgerId v = ledger_id l \<and> voucher_type v \<in> set [Purchase, Payment]) vs"
    by (induction vs) auto
  then show ?thesis by (simp only: credits_def)
qed

lemma unreferenced_totals:
  assumes "\<forall>v \<in> set vs. ledgerId v \<noteq> ledger_id l"
  shows "debits l vs = Fin 0" and "credits l vs = Fin 0"
proof -
  have "filter (\<lambda>v. ledgerId v = ledger_id l \<and> P v) vs = []" for P
    using assms by (simp add: filter_empty_conv)
  then show "debits l vs = Fin 0" and "credits l vs = Fin 0"
    by (simp_all add: debits_def credits_def sumAmounts_def)
qed

text \<open>
  C4 (as stated in the specification): the net is the opening balance plus the sum of the
  Sales and Receipt amounts of the ledger minus the sum of its Purchase and Payment
  amounts. The code adds doubles, and the additions round: for sales of \<open>2 ^ 53\<close> and \<open>1\<close>
  on one ledger the net is \<open>2 ^ 53\<close>, and the sum of the claim is \<open>2 ^ 53 + 1\<close>.
\<close>

theorem net_rounding_counterexample:
  "net (mkLedger ''9'' ''Big Customer'' SundryDebtor None 0)
     [mkVoucher ''V1'' ''2024-04-01'' Sales ''9'' 9007199254740992 ''a'' None,
      mkVoucher ''V2'' ''2024-04-02'' Sales ''9'' 1 ''b'' None]
   = Fin 9007199254740992 \<and>
   openingBalance (mkLedger ''9'' ''Big Customer'' SundryDebtor None 0)
     + sum_list (map amount (filter (\<lambda>v. ledgerId v = ''9'' \<and>
         (voucher_type v = Sales \<or> voucher_type v = Receipt))
       [mkVoucher ''V1'' ''2024-04-01'' Sales ''9'' 9007199254740992 ''a'' None,
        mkVoucher ''V2'' ''2024-04-02'' Sales ''9'' 1 ''b'' None]))
     - sum_list (map amount (filter (\<lambda>v. ledgerId v = ''9'' \<and>
         (voucher_type v = Purchase \<or> voucher_type v = Payment))
       [mkVoucher ''V1'' ''2024-04-01'' Sales ''9'' 9007199254740992 ''a'' None,
        mkVoucher ''V2'' ''2024-04-02'' Sales ''9'' 1 ''b'' None]))
   = 9007199254740993"
  by (simp add: net_def debits_def credits_def sumAmounts_def jsSub_def mkLedger_def
        mkVoucher_def rounding_at_2_53)

text \<open>
  C4 (amended): for every ledger, when no addition or subtraction of the computation
  rounds (each partial sum of the two totals, the opening balance plus the debit total,
  and that minus the credit total are finite doubles), the net is the opening balance, plus
  the sum of the amounts of the vouchers on that ledger of type Sales or Receipt, minus the
  sum of the amounts of the vouchers on that ledger of type Purchase or Payment. Vouchers
  of type Journal or Contra contribute nothing: leaving them out of the journal does not
  change the net. A ledger that no voucher references has its opening balance as net.
\<close>

theorem net_balance_formula:
  "(exactSum 0 (map amount (filter (\<lambda>v. ledgerId v = ledger_id l \<and>
        voucher_type v \<in> set [Sales, Receipt]) vs)) \<and>
    exactSum 0 (map amount (filter (\<lambda>v. ledgerId v = ledger_id l \<and>
        voucher_type v \<in> set [Purchase, Payment]) vs)) \<and>
    toDouble (openingBalance l
      + sum_list (map amount (filter (\<lambda>v. ledgerId v = ledger_id l \<and>
           voucher_type v \<in> set [Sales, Receipt]) vs)))
    = Fin (openingBalance l
      + sum_list (map amount (filter (\<lambda>v. ledgerId v = ledger_id l \<and>
           voucher_type v \<in> set [Sales, Receipt]) vs))) \<and>
    toDouble (openingBalance l
      + sum_list (map amount (filter (\<lambda>v. ledgerId v = ledger_id l \<and>
           voucher_type v \<in> set [Sales, Receipt]) vs))
      - sum_list (map amount (filter (\<lambda>v. ledgerId v = ledger_id l \<and>
           voucher_type v \<in> set [Purchase, Payment]) vs)))
    = Fin (openingBalance l
      + sum_list (map amount (filter (\<lambda>v. ledgerId v = ledger_id l \<and>
           voucher_type v \<in> set [Sales, Receipt]) vs))
      - sum_list (map amount (filter (\<lambda>v. ledgerId v = ledger_id l \<and>
           voucher_type v \<in> set [Purchase, Payment]) vs)))
    \<longrightarrow>
    net l vs = Fin (openingBalance l
      + sum_list (map amount (filter (\<lambda>v. ledgerId v = ledger_id l \<and>
           voucher_type v \<in> set [Sales, Receipt]) vs))
      - sum_list (map amount (filter (\<lambda>v. ledgerId v = ledger_id l \<and>
           voucher_type v \<in> set [Purchase, Payment]) vs)))) \<and>
   net l (filter (\<lambda>v. voucher_type v \<noteq> Journal \<and> voucher_type v \<noteq> Contra) vs) = net l vs \<and>
   ((\<forall>v \<in> set vs. ledgerId v \<noteq> ledger_id l) \<and>
    toDouble (openingBalance l) = Fin (openingBalance l)
    \<longrightarrow> net l vs = Fin (openingBalance l))"
proof (intro conjI impI)
  let ?D = "filter (\<lambda>v. ledgerId v = ledger_id l \<and> voucher_type v \<in> set [Sales, Receipt]) vs"
  let ?C = "filter (\<lambda>v. ledgerId v = ledger_id l \<and> voucher_type v \<in> set [Purchase, Payment]) vs"
  assume h: "exactSum 0 (map amount ?D) \<and> exactSum 0 (map amount ?C) \<and>
    toDouble (openingBalance l + sum_list (map amount ?D))
      = Fin (openingBalance l + sum_list (map amount ?D)) \<and>
    toDouble (openingBalance l + sum_list (map amount ?D) - sum_list (map amount ?C))
      = Fin (openingBalance l + sum_list (map amount ?D) - sum_list (map amount ?C))"
  have d: "debits l vs = Fin (sum_list (map amount ?D))"
    unfolding debits_def using h by (intro sumAmounts_exact) simp
  have c: "credits l vs = Fin (sum_list (map amount ?C))"
    unfolding credits_def using h by (intro sumAmounts_exact) simp
  show "net l vs = Fin (openingBalance l + sum_list (map amount ?D) - sum_list (map amount ?C))"
    using h by (simp add: net_def jsSub_def d c)
next
  show "net l (filter (\<lambda>v. voucher_type v \<noteq> Journal \<and> voucher_type v \<noteq> Contra) vs) = net l vs"
    unfolding net_def by (simp only: debits_drop_journal_contra credits_drop_journal_contra)
next
  assume "(\<forall>v \<in> set vs. ledgerId v \<noteq> ledger_id l) \<and>
    toDouble (openingBalance l) = Fin (openingBalance l)"
  then show "net l vs = Fin (openingBalance l)"
    by (simp add: net_def jsSub_def unreferenced_totals)
qed

theorem net_balance_formula_witness:
  "net (ledgers INITIAL_DATA ! 0) (vouchers INITIAL_DATA) = Fin 100000 \<and>
   net (ledgers INITIAL_DATA ! 5) (vouchers INITIAL_DATA) = Fin (- 25000) \<and>
   ledger_id (ledgers INITIAL_DATA ! 1) \<notin> set (map ledgerId (vouchers INITIAL_DATA)) \<and>
   toDouble (openingBalance (ledgers INITIAL_DATA ! 1)) = Fin 150000 \<and>
   net (ledgers INITIAL_DATA ! 1) (vouchers INITIAL_DATA) = Fin 150000"
  using net_balance_formula [of "ledgers INITIAL_DATA ! 0" "vouchers INITIAL_DATA"]
    net_balance_formula [of "ledgers INITIAL_DATA ! 5" "vouchers INITIAL_DATA"]
    net_balance_formula [of "ledgers INITIAL_DATA ! 1" "vouchers INITIAL_DATA"]
  by (simp add: INITIAL_DATA_def mkLedger_def mkVoucher_def initial_doubles)

lemma trialBalanceRow_None: "(trialBalanceRow vs l = None) = (net l vs = Fin 0)"
  by (simp add: trialBalanceRow_def Let_def)

lemma trialBalance_as_map:
  "trialBalance d =
     map (the \<circ> trialBalanceRow (vouchers d))
       (filter (\<lambda>l. net l (vouchers d) \<noteq> Fin 0) (ledgers d))"
  by (simp add: trialBalance_def List.map_filter_def trialBalanceRow_None)

lemma trialBalanceRow_nonzero:
  assumes "net l vs \<noteq> Fin 0"
  shows "the (trialBalanceRow vs l) =
     \<lparr>row_key = ledger_id l, row_name = ledger_name l, row_group = ledger_group l,
      debitCell = (if jsPositive (net l vs) then Formatted (net l vs) else Dash),
      creditCell = (if jsNegative (net l vs) then Formatted (jsAbs (net l vs)) else Dash)\<rparr>"
  using assms by (simp add: trialBalanceRow_def Let_def)

text \<open>
  Rounding decides whether a row is shown: with sales of \<open>2 ^ 53\<close> and \<open>1\<close> and a purchase
  of \<open>2 ^ 53\<close> on one ledger the computed net is zero and the ledger has no row.
\<close>

lemma trialBalanceRow_rounded_to_zero:
  "trialBalanceRow
     [mkVoucher ''V1'' ''2024-04-01'' Sales ''9'' 9007199254740992 ''a'' None,
      mkVoucher ''V2'' ''2024-04-02'' Sales ''9'' 1 ''b'' None,
      mkVoucher ''V3'' ''2024-04-03'' Purchase ''9'' 9007199254740992 ''c'' None]
     (mkLedger ''9'' ''Big Customer'' SundryDebtor None 0) = None"
  by (simp add: trialBalanceRow_def net_def debits_def credits_def sumAmounts_def jsSub_def
        mkLedger_def mkVoucher_def rounding_at_2_53 initial_doubles)

text \<open>
  C5: the trial balance has exactly one row for every ledger of the registry whose net (as
  the code computes it) is not zero, in registry order, and no row for a ledger whose net
  is zero: its rows are, in order, the rows of the registry's ledgers with non-zero net. In
  each row the debit cell holds the net and the credit cell is the dash when the net is
  positive, and the credit cell holds the absolute value of the net and the debit cell is
  the dash when the net is negative.
\<close>

theorem trialBalance_rows:
  "length (trialBalance d) = length (filter (\<lambda>l. net l (vouchers d) \<noteq> Fin 0) (ledgers d)) \<and>
   (\<forall>i < length (filter (\<lambda>l. net l (vouchers d) \<noteq> Fin 0) (ledgers d)).
      row_key (trialBalance d ! i)
        = ledger_id (filter (\<lambda>l. net l (vouchers d) \<noteq> Fin 0) (ledgers d) ! i) \<and>
      row_name (trialBalance d ! i)
        = ledger_name (filter (\<lambda>l. net l (vouchers d) \<noteq> Fin 0) (ledgers d) ! i) \<and>
      row_group (trialBalance d ! i)
        = ledger_group (filter (\<lambda>l. net l (vouchers d) \<noteq> Fin 0) (ledgers d) ! i) \<and>
      (jsPositive (net (filter (\<lambda>l. net l (vouchers d) \<noteq> Fin 0) (ledgers d) ! i) (vouchers d))
       \<longrightarrow>
         debitCell (trialBalance d ! i)
           = Formatted (net (filter (\<lambda>l. net l (vouchers d) \<noteq> Fin 0) (ledgers d) ! i)
               (vouchers d)) \<and>
         creditCell (trialBalance d ! i) = Dash) \<and>
      (jsNegative (net (filter (\<lambda>l. net l (vouchers d) \<noteq> Fin 0) (ledgers d) ! i) (vouchers d))
       \<longrightarrow>
         creditCell (trialBalance d ! i)
           = Formatted (jsAbs (net (filter (\<lambda>l. net l (vouchers d) \<noteq> Fin 0) (ledgers d) ! i)
               (vouchers d))) \<and>
         debitCell (trialBalance d ! i) = Dash))"
proof -
  let ?keep = "filter (\<lambda>l. net l (vouchers d) \<noteq> Fin 0) (ledgers d)"
  have len: "length (trialBalance d) = length ?keep"
    by (simp add: trialBalance_as_map)
  have row: "trialBalance d ! i =
     \<lparr>row_key = ledger_id (?keep ! i), row_name = ledger_name (?keep ! i),
      row_group = ledger_group (?keep ! i),
      debitCell = (if jsPositive (net (?keep ! i) (vouchers d))
                   then Formatted (net (?keep ! i) (vouchers d)) else Dash),
      creditCell = (if jsNegative (net (?keep ! i) (vouchers d))
                    then Formatted (jsAbs (net (?keep ! i) (vouchers d))) else Dash)\<rparr>"
    if i: "i < length ?keep" for i
  proof -
    have "?keep ! i \<in> set ?keep" using i by (rule nth_mem)
    then have nz: "net (?keep ! i) (vouchers d) \<noteq> Fin 0" by simp
    have "trialBalance d ! i = the (trialBalanceRow (vouchers d) (?keep ! i))"
      using i by (simp add: trialBalance_as_map)
    then show ?thesis by (simp only: trialBalanceRow_nonzero [OF nz])
  qed
  have excl: "\<not> (jsPositive n \<and> jsNegative n)" for n
    by (cases n) auto
  show ?thesis using excl by (auto simp: len row)
qed

theorem trialBalance_rows_witness:
  "length (trialBalance INITIAL_DATA) = 5 \<and>
   map row_key (trialBalance INITIAL_DATA) = [''1'', ''2'', ''5'', ''6'', ''7''] \<and>
   (3::nat) < length (filter (\<lambda>l. net l (vouchers INITIAL_DATA) \<noteq> Fin 0) (ledgers INITIAL_DATA)) \<and>
   net (filter (\<lambda>l. net l (vouchers INITIAL_DATA) \<noteq> Fin 0) (ledgers INITIAL_DATA) ! 3)
     (vouchers INITIAL_DATA) = Fin (- 25000) \<and>
   debitCell (trialBalance INITIAL_DATA ! 3) = Dash \<and>
   creditCell (trialBalance INITIAL_DATA ! 3) = Formatted (Fin 25000) \<and>
   net (filter (\<lambda>l. net l (vouchers INITIAL_DATA) \<noteq> Fin 0) (ledgers INITIAL_DATA) ! 0)
     (vouchers INITIAL_DATA) = Fin 100000 \<and>
   debitCell (trialBalance INITIAL_DATA ! 0) = Formatted (Fin 100000) \<and>
   creditCell (trialBalance INITIAL_DATA ! 0) = Dash"
  using trialBalance_rows [of INITIAL_DATA]
  by (simp add: INITIAL_DATA_def mkLedger_def mkVoucher_def net_def debits_def credits_def
        sumAmounts_def jsSub_def initial_doubles
        trialBalance_def trialBalanceRow_def List.map_filter_def)

lemma net_group: "net (l\<lparr>ledger_group := g\<rparr>) vs = net l vs"
  by (simp add: net_def debits_def credits_def)

lemma trialBalanceRow_group:
  "trialBalanceRow vs (l\<lparr>ledger_group := g\<rparr>)
   = map_option (\<lambda>r. r\<lparr>row_group := g\<rparr>) (trialBalanceRow vs l)"
  by (simp add: trialBalanceRow_def Let_def net_group isCreditNature_def)

lemma map_filter_group:
  "map (\<lambda>r. (row_key r, row_name r, debitCell r, creditCell r))
      (List.map_filter (trialBalanceRow vs) (ls[i := (ls ! i)\<lparr>ledger_group := g\<rparr>]))
   = map (\<lambda>r. (row_key r, row_name r, debitCell r, creditCell r))
      (List.map_filter (trialBalanceRow vs) ls)"
proof (induction ls arbitrary: i)
  case Nil
  then show ?case by simp
next
  case (Cons x xs)
  show ?case
  proof (cases i)
    case 0
    then show ?thesis
      by (cases "trialBalanceRow vs x") (simp_all add: trialBalanceRow_group)
  next
    case (Suc j)
    then show ?thesis
      using Cons.IH [of j] by (simp split: option.splits)
  qed
qed

text \<open>
  C9: the group of a ledger never influences the column its amount lands in. For two
  registries that differ only in the group of the ledger at one position, and the same
  journal, the trial balances have the same rows with the same debit and credit cells:
  only the group shown beside the name can differ. The credit-nature classification is
  computed from the group and read by nothing.
\<close>

theorem trialBalance_group_independent:
  "i < length (ledgers d) \<Longrightarrow>
   map (\<lambda>r. (row_key r, row_name r, debitCell r, creditCell r))
     (trialBalance (d\<lparr>ledgers := (ledgers d)[i := (ledgers d ! i)\<lparr>ledger_group := g\<rparr>]\<rparr>))
   = map (\<lambda>r. (row_key r, row_name r, debitCell r, creditCell r)) (trialBalance d)"
  by (simp add: trialBalance_def map_filter_group)

theorem trialBalance_group_independent_witness:
  "(5::nat) < length (ledgers INITIAL_DATA) \<and>
   ledger_group (ledgers INITIAL_DATA ! 5) = SundryCreditor \<and>
   isCreditNature (ledgers INITIAL_DATA ! 5) \<and>
   \<not> isCreditNature ((ledgers INITIAL_DATA ! 5)\<lparr>ledger_group := Asset\<rparr>) \<and>
   map (\<lambda>r. (row_key r, row_name r, debitCell r, creditCell r))
     (trialBalance (INITIAL_DATA\<lparr>ledgers :=
        (ledgers INITIAL_DATA)[5 := (ledgers INITIAL_DATA ! 5)\<lparr>ledger_group := Asset\<rparr>]\<rparr>))
   = map (\<lambda>r. (row_key r, row_name r, debitCell r, creditCell r)) (trialBalance INITIAL_DATA) \<and>
   map (\<lambda>r. (row_key r, debitCell r, creditCell r)) (trialBalance INITIAL_DATA)
   = [(''1'', Formatted (Fin 100000), Dash), (''2'', Formatted (Fin 150000), Dash),
      (''5'', Formatted (Fin 45000), Dash), (''6'', Dash, Formatted (Fin 25000)),
      (''7'', Dash, Formatted (Fin 12000))]"
  using trialBalance_group_independent [of 5 INITIAL_DATA Asset]
  by (simp add: INITIAL_DATA_def mkLedger_def mkVoucher_def net_def debits_def credits_def
        sumAmounts_def jsSub_def initial_doubles
        trialBalance_def trialBalanceRow_def List.map_filter_def isCreditNature_def)

section \<open>Profit and loss\<close>

text \<open>
  C3: the net profit should be revenue minus cost of goods minus direct expenses. The
  panel shows the constant 10000 instead. On the journal of the initial data the three
  sums are 45000, 25000 and 12000, so the difference is 8000, and the net profit shown is
  10000.
\<close>

theorem netProfit_is_placeholder:
  "revenue (computeProfitAndLoss (vouchers INITIAL_DATA)) = Fin 45000 \<and>
   costOfGoods (computeProfitAndLoss (vouchers INITIAL_DATA)) = Fin 25000 \<and>
   directExpenses (computeProfitAndLoss (vouchers INITIAL_DATA)) = Fin 12000 \<and>
   jsSub (jsSub (revenue (computeProfitAndLoss (vouchers INITIAL_DATA)))
                (costOfGoods (computeProfitAndLoss (vouchers INITIAL_DATA))))
         (directExpenses (computeProfitAndLoss (vouchers INITIAL_DATA))) = Fin 8000 \<and>
   netProfit (computeProfitAndLoss (vouchers INITIAL_DATA)) = Fin 10000"
  by (simp add: computeProfitAndLoss_def INITIAL_DATA_def mkVoucher_def sumAmounts_def
        jsSub_def initial_doubles)

end
